theory Spec2Isabelle
  imports Complex_Main
begin

section \<open>Transport session: src/utils/socket.js\<close>

text \<open>
  The module keeps one variable, \<open>socket\<close>, that is either null or a reference to a
  Socket.IO client object. The objects live in a store (a list, the index is the
  reference) because the pages keep their own reference to the object that
  \<open>connectSocket\<close> returned and the library flips its \<open>connected\<close> property behind the
  module's back. Every call of \<open>io(...)\<close> allocates one object and starts one
  handshake, so the length of the store is the number of handshakes issued.

  Console output is part of the state. The pictograph that starts each message in the
  source is left out of the strings.
\<close>

datatype console_entry = ConsoleLog string | ConsoleError string

record socket_object =
  sock_connected :: bool
  auth_token :: string

record 'd socket_module =
  SOCKET_URL :: string
  socket :: "nat option"
  sockets :: "socket_object list"
  emitted :: "(nat \<times> string \<times> 'd) list"
  console :: "console_entry list"

definition console_log :: "string \<Rightarrow> 'd socket_module \<Rightarrow> 'd socket_module" where
  "console_log msg m = m\<lparr>console := console m @ [ConsoleLog msg]\<rparr>"

definition console_error :: "string \<Rightarrow> 'd socket_module \<Rightarrow> 'd socket_module" where
  "console_error msg m = m\<lparr>console := console m @ [ConsoleError msg]\<rparr>"

text \<open>\<open>socket && socket.connected\<close>: the variable is set and the object it refers to
  is connected. A reference outside the store reads as not connected.\<close>

definition object_connected :: "'d socket_module \<Rightarrow> nat \<Rightarrow> bool" where
  "object_connected m s = (s < length (sockets m) \<and> sock_connected (sockets m ! s))"

definition isConnected :: "'d socket_module \<Rightarrow> bool" where
  "isConnected m = (case socket m of None \<Rightarrow> False | Some s \<Rightarrow> object_connected m s)"

definition getSocket :: "'d socket_module \<Rightarrow> nat option" where
  "getSocket m = socket m"

text \<open>A token is falsy when it is null, undefined or the empty string.\<close>

definition token_text :: "string option \<Rightarrow> string" where
  "token_text token = (case token of None \<Rightarrow> [] | Some t \<Rightarrow> t)"

definition connectSocket :: "string option \<Rightarrow> 'd socket_module \<Rightarrow> nat option \<times> 'd socket_module" where
  "connectSocket token m =
     (if isConnected m then (socket m, console_log ''Socket already connected'' m)
      else
        let m1 = console_log ''Connecting to Socket.IO server...'' m;
            m2 = console_log (''   URL: '' @ SOCKET_URL m1) m1;
            m3 = console_log (''   Token: '' @
                   (if token_text token \<noteq> [] then take 20 (token_text token) @ ''...''
                    else ''NO TOKEN!'')) m2
        in if token_text token = []
           then (None, console_error ''Cannot connect: No token provided!'' m3)
           else
             let s = length (sockets m3)
             in (Some s,
                 m3\<lparr>socket := Some s,
                    sockets := sockets m3 @
                      [\<lparr>sock_connected = False, auth_token = token_text token\<rparr>]\<rparr>))"

text \<open>
  \<open>socket.disconnect()\<close> of the library marks the object as not connected; when it was
  connected, the library then fires the object's \<open>disconnect\<close> listeners, the first of
  which is the logging listener that \<open>connectSocket\<close> registered.
\<close>

definition socket_disconnect :: "nat \<Rightarrow> 'd socket_module \<Rightarrow> 'd socket_module" where
  "socket_disconnect s m =
     (if object_connected m s
      then console_log ''Socket.IO disconnected: io client disconnect''
             (m\<lparr>sockets := (sockets m)[s := (sockets m ! s)\<lparr>sock_connected := False\<rparr>]\<rparr>)
      else m)"

definition disconnectSocket :: "'d socket_module \<Rightarrow> 'd socket_module" where
  "disconnectSocket m =
     (case socket m of
        None \<Rightarrow> m
      | Some s \<Rightarrow>
          (socket_disconnect s (console_log ''Disconnecting Socket.IO...'' m))\<lparr>socket := None\<rparr>)"

definition emitEvent :: "string \<Rightarrow> 'd \<Rightarrow> 'd socket_module \<Rightarrow> 'd socket_module" where
  "emitEvent event data m =
     (case socket m of
        None \<Rightarrow> console_error (''Socket not connected, cannot emit event: '' @ event) m
      | Some s \<Rightarrow>
          if object_connected m s
          then m\<lparr>emitted := emitted m @ [(s, event, data)]\<rparr>
          else console_error (''Socket not connected, cannot emit event: '' @ event) m)"

text \<open>
  The transport's side of the session, as the library reports it: the handshake of
  object \<open>s\<close> completes (the object becomes connected and its \<open>connect\<close> listener logs),
  or the connection of \<open>s\<close> is lost (the object becomes not connected and its
  \<open>disconnect\<close> listener logs the reason).
\<close>

definition transport_connected :: "nat \<Rightarrow> 'd socket_module \<Rightarrow> 'd socket_module" where
  "transport_connected s m =
     (if s < length (sockets m)
      then console_log ''Socket.IO connected''
             (m\<lparr>sockets := (sockets m)[s := (sockets m ! s)\<lparr>sock_connected := True\<rparr>]\<rparr>)
      else m)"

definition transport_lost :: "nat \<Rightarrow> string \<Rightarrow> 'd socket_module \<Rightarrow> 'd socket_module" where
  "transport_lost s reason m =
     (if object_connected m s
      then console_log (''Socket.IO disconnected: '' @ reason)
             (m\<lparr>sockets := (sockets m)[s := (sockets m ! s)\<lparr>sock_connected := False\<rparr>]\<rparr>)
      else m)"

definition fresh_module :: "string \<Rightarrow> 'd socket_module" where
  "fresh_module url =
     \<lparr>SOCKET_URL = url, socket = None, sockets = [], emitted = [], console = []\<rparr>"

section \<open>Detection payloads\<close>

text \<open>
  A detection payload as the hub sends it with \<open>detection:result\<close>. The fields that the
  source reads behind a guard (\<open>detections?.count\<close>, \<open>detections && detections.boxes\<close>)
  may be missing, so they are options. Coordinates and confidences are JavaScript
  numbers; a number is given by its exact value (every finite double is a rational).
\<close>

type_synonym box = "rat \<times> rat \<times> rat \<times> rat"

record DetectionSet =
  count :: "int option"
  boxes :: "box list option"
  labels :: "string list option"
  confidences :: "rat list option"

record DetectionPayload =
  camera_id :: string
  camera_sid :: string
  frame :: string
  detections :: "DetectionSet option"
  timestamp :: rat

text \<open>\<open>det.detections?.count || 0\<close>\<close>

definition detectionCount :: "DetectionPayload \<Rightarrow> int" where
  "detectionCount det =
     (case detections det of
        None \<Rightarrow> 0
      | Some ds \<Rightarrow> (case count ds of None \<Rightarrow> 0 | Some c \<Rightarrow> if c = 0 then 0 else c))"

section \<open>Detection overlay renderer: the VideoTile component\<close>

text \<open>
  The canvas and its 2d context are one record: the size of the bitmap, the drawing
  state that the source assigns (\<open>fillStyle\<close>, \<open>strokeStyle\<close>, \<open>lineWidth\<close>, \<open>font\<close>) and
  the surface, the list of what has been painted since the bitmap was last cleared, in
  paint order. Each painted primitive records the drawing state it was painted with.
\<close>

record image =
  img_width :: nat
  img_height :: nat
  bitmap :: "nat list"

text \<open>The painted primitives: an image at a position; the outline of a rectangle
  (stroke colour, line width, x, y, width, height); a filled rectangle (fill colour, x,
  y, width, height); a text (fill colour, font, text, x, y).\<close>

datatype drawn =
    DrawnImage image rat rat
  | StrokedRect string rat rat rat rat rat
  | FilledRect string rat rat rat rat
  | FilledText string string string rat rat

record canvas =
  width :: nat
  height :: nat
  fillStyle :: string
  strokeStyle :: string
  lineWidth :: rat
  font :: string
  surface :: "drawn list"

text \<open>Assigning \<open>canvas.width\<close> or \<open>canvas.height\<close> clears the bitmap and resets the
  drawing state to its defaults, also when the value does not change.\<close>

definition reset_context :: "canvas \<Rightarrow> canvas" where
  "reset_context c =
     c\<lparr>fillStyle := ''#000000'', strokeStyle := ''#000000'', lineWidth := 1,
       font := ''10px sans-serif'', surface := []\<rparr>"

definition set_width :: "nat \<Rightarrow> canvas \<Rightarrow> canvas" where
  "set_width w c = reset_context (c\<lparr>width := w\<rparr>)"

definition set_height :: "nat \<Rightarrow> canvas \<Rightarrow> canvas" where
  "set_height h c = reset_context (c\<lparr>height := h\<rparr>)"

definition drawImage :: "image \<Rightarrow> rat \<Rightarrow> rat \<Rightarrow> canvas \<Rightarrow> canvas" where
  "drawImage img x y c = c\<lparr>surface := surface c @ [DrawnImage img x y]\<rparr>"

definition strokeRect :: "rat \<Rightarrow> rat \<Rightarrow> rat \<Rightarrow> rat \<Rightarrow> canvas \<Rightarrow> canvas" where
  "strokeRect x y w h c =
     c\<lparr>surface := surface c @ [StrokedRect (strokeStyle c) (lineWidth c) x y w h]\<rparr>"

definition fillRect :: "rat \<Rightarrow> rat \<Rightarrow> rat \<Rightarrow> rat \<Rightarrow> canvas \<Rightarrow> canvas" where
  "fillRect x y w h c = c\<lparr>surface := surface c @ [FilledRect (fillStyle c) x y w h]\<rparr>"

definition fillText :: "string \<Rightarrow> rat \<Rightarrow> rat \<Rightarrow> canvas \<Rightarrow> canvas" where
  "fillText txt x y c = c\<lparr>surface := surface c @ [FilledText (fillStyle c) (font c) txt x y]\<rparr>"

text \<open>\<open>labels[i] || 'Unknown'\<close> and \<open>confidences[i] || 0\<close>: an index past the end reads
  \<open>undefined\<close>, which is falsy, as are the empty string and the number zero.\<close>

definition label_at :: "string list \<Rightarrow> nat \<Rightarrow> string" where
  "label_at ls i = (if i < length ls \<and> ls ! i \<noteq> [] then ls ! i else ''Unknown'')"

definition confidence_at :: "rat list \<Rightarrow> nat \<Rightarrow> rat" where
  "confidence_at cs i = (if i < length cs \<and> cs ! i \<noteq> 0 then cs ! i else 0)"

text \<open>
  The colour table is an object literal with three keys. A lookup in it also finds the
  properties that every object inherits from \<open>Object.prototype\<close>; their values are
  functions (for \<open>__proto__\<close> an object), which are truthy and are not colours. So the
  value of \<open>colorMap[label] || '#00FF00'\<close> is a colour string or such a value.
\<close>

datatype style_value = Colour string | NotAColour

definition object_prototype_keys :: "string list" where
  "object_prototype_keys =
     [''constructor'', ''hasOwnProperty'', ''isPrototypeOf'', ''propertyIsEnumerable'',
      ''toLocaleString'', ''toString'', ''valueOf'', ''__proto__'',
      ''__defineGetter__'', ''__defineSetter__'', ''__lookupGetter__'', ''__lookupSetter__'']"

definition colorMap :: "string \<Rightarrow> style_value option" where
  "colorMap label =
     (if label = ''Human'' then Some (Colour ''#FFFF00'')
      else if label = ''Weapon'' then Some (Colour ''#FF0000'')
      else if label = ''Vehicle'' then Some (Colour ''#0000FF'')
      else if label \<in> set object_prototype_keys then Some NotAColour
      else None)"

definition label_color :: "string \<Rightarrow> style_value" where
  "label_color label = (case colorMap label of Some v \<Rightarrow> v | None \<Rightarrow> Colour ''#00FF00'')"

text \<open>Assigning to \<open>strokeStyle\<close> or \<open>fillStyle\<close>: a colour string becomes the style, any
  other value is ignored and the style stays what it was.\<close>

definition style_after :: "style_value \<Rightarrow> string \<Rightarrow> string" where
  "style_after v previous = (case v of Colour c \<Rightarrow> c | NotAColour \<Rightarrow> previous)"

text \<open>
  What the callback computes with numbers is the browser's arithmetic on doubles, and
  the width of a text is the browser's text metric. They are parameters of the model:
  \<open>measureText\<close> (font, text to width), the sum and the difference of two numbers, and
  \<open>percent\<close>, the text of \<open>(conf * 100).toFixed(0)\<close> for a confidence.
\<close>

record platform =
  measureText :: "string \<Rightarrow> string \<Rightarrow> rat"
  num_add :: "rat \<Rightarrow> rat \<Rightarrow> rat"
  num_sub :: "rat \<Rightarrow> rat \<Rightarrow> rat"
  percent :: "rat \<Rightarrow> string"

definition labelText :: "platform \<Rightarrow> string list \<Rightarrow> rat list \<Rightarrow> nat \<Rightarrow> string" where
  "labelText pf ls cs i = label_at ls i @ '' '' @ percent pf (confidence_at cs i) @ ''%''"

text \<open>The body of the \<open>forEach\<close> callback.\<close>

definition draw_box ::
  "platform \<Rightarrow> string list \<Rightarrow> rat list \<Rightarrow> nat \<Rightarrow> box \<Rightarrow> canvas \<Rightarrow> canvas" where
  "draw_box pf ls cs i b ctx =
     (case b of (x1, y1, x2, y2) \<Rightarrow>
        let label = label_at ls i;
            color = label_color label;
            ctx1 = strokeRect x1 y1 (num_sub pf x2 x1) (num_sub pf y2 y1)
                     (ctx\<lparr>strokeStyle := style_after color (strokeStyle ctx), lineWidth := 3\<rparr>);
            txt = labelText pf ls cs i;
            ctx2 = ctx1\<lparr>font := ''14px Arial''\<rparr>;
            textWidth = measureText pf (font ctx2) txt;
            textHeight = 20;
            ctx3 = fillRect x1 (num_sub pf y1 textHeight) (num_add pf textWidth 10) textHeight
                     (ctx2\<lparr>fillStyle := style_after color (fillStyle ctx2)\<rparr>)
        in fillText txt (num_add pf x1 5) (num_sub pf y1 5) (ctx3\<lparr>fillStyle := ''#000000''\<rparr>))"

fun forEach_box ::
  "platform \<Rightarrow> string list \<Rightarrow> rat list \<Rightarrow> nat \<Rightarrow> box list \<Rightarrow> canvas \<Rightarrow> canvas" where
  "forEach_box pf ls cs i [] ctx = ctx"
| "forEach_box pf ls cs i (b # bs) ctx =
     forEach_box pf ls cs (Suc i) bs (draw_box pf ls cs i b ctx)"

text \<open>
  \<open>drawBoundingBoxes\<close> returns at once without boxes. With at least one box the first
  callback reads \<open>labels[0]\<close> and then \<open>confidences[0]\<close>; when one of the two arrays is
  missing altogether that read throws a TypeError before anything is painted.
\<close>

datatype fault = TypeError

definition drawBoundingBoxes ::
  "platform \<Rightarrow> DetectionSet \<Rightarrow> canvas \<Rightarrow> fault + canvas" where
  "drawBoundingBoxes pf ds ctx =
     (case boxes ds of
        None \<Rightarrow> Inr ctx
      | Some bs \<Rightarrow>
          if length bs = 0 then Inr ctx
          else (case labels ds of
                  None \<Rightarrow> Inl TypeError
                | Some ls \<Rightarrow>
                    (case confidences ds of
                       None \<Rightarrow> Inl TypeError
                     | Some cs \<Rightarrow> Inr (forEach_box pf ls cs 0 bs ctx))))"

definition img_onload ::
  "platform \<Rightarrow> DetectionPayload \<Rightarrow> image \<Rightarrow> canvas \<Rightarrow> fault + canvas" where
  "img_onload pf detection img cv =
     (let cv1 = set_height (img_height img) (set_width (img_width img) cv);
          cv2 = drawImage img 0 0 cv1
      in case DetectionPayload.detections detection of
           None \<Rightarrow> Inr cv2
         | Some ds \<Rightarrow>
             (case boxes ds of
                None \<Rightarrow> Inr cv2
              | Some bs \<Rightarrow> drawBoundingBoxes pf ds cv2))"

text \<open>\<open>canvas.width || 300\<close>, \<open>canvas.height || 200\<close>\<close>

definition img_onerror :: "canvas \<Rightarrow> canvas" where
  "img_onerror cv =
     (let cv1 = fillRect 0 0 (if width cv = 0 then 300 else of_nat (width cv))
                             (if height cv = 0 then 200 else of_nat (height cv))
                             (cv\<lparr>fillStyle := ''#333''\<rparr>)
      in fillText ''Frame Load Error'' 10 20 (cv1\<lparr>fillStyle := ''#fff''\<rparr>))"

definition image_src :: "string \<Rightarrow> string" where
  "image_src fr =
     (if take 10 fr = ''data:image'' then fr else ''data:image/jpeg;base64,'' @ fr)"

text \<open>
  The effect that renders a payload. It does nothing without a payload, with an empty
  frame or without a mounted canvas. Otherwise it hands the frame to the browser's
  image decoder (\<open>decode\<close>, a parameter: the image, or nothing when the data cannot be
  decoded) and the decoder calls back \<open>onload\<close> or \<open>onerror\<close>. The model runs the
  callback at once; the result is the canvas after the callback, or the fault the
  callback raised.
\<close>

definition VideoTile_effect ::
  "(string \<Rightarrow> image option) \<Rightarrow> platform \<Rightarrow>
   DetectionPayload option \<Rightarrow> canvas option \<Rightarrow> fault + canvas option" where
  "VideoTile_effect decode pf detection canvasRef =
     (case detection of
        None \<Rightarrow> Inr canvasRef
      | Some det \<Rightarrow>
          if frame det = [] then Inr canvasRef
          else (case canvasRef of
                  None \<Rightarrow> Inr None
                | Some cv \<Rightarrow>
                    (case decode (image_src (frame det)) of
                       Some img \<Rightarrow>
                         (case img_onload pf det img cv of
                            Inl f \<Rightarrow> Inl f
                          | Inr cv' \<Rightarrow> Inr (Some cv'))
                     | None \<Rightarrow> Inr (Some (img_onerror cv)))))"

text \<open>
  What one box adds to the surface when the stroke and fill styles before it are \<open>ss\<close>
  and \<open>fs\<close>, and what a list of boxes adds from index \<open>i\<close> on: the content of lemma
  \<open>forEach_box_surface\<close>. After a box the stroke style is the one it painted with and
  the fill style is black; \<open>stroke_before\<close> and \<open>fill_before\<close> are the styles before the
  \<open>k\<close>-th box of such a run.
\<close>

definition box_primitives ::
  "platform \<Rightarrow> string list \<Rightarrow> rat list \<Rightarrow> nat \<Rightarrow> box \<Rightarrow> string \<Rightarrow> string \<Rightarrow> drawn list" where
  "box_primitives pf ls cs i b ss fs =
     (case b of (x1, y1, x2, y2) \<Rightarrow>
        [StrokedRect (style_after (label_color (label_at ls i)) ss) 3 x1 y1
           (num_sub pf x2 x1) (num_sub pf y2 y1),
         FilledRect (style_after (label_color (label_at ls i)) fs) x1 (num_sub pf y1 20)
           (num_add pf (measureText pf ''14px Arial'' (labelText pf ls cs i)) 10) 20,
         FilledText ''#000000'' ''14px Arial'' (labelText pf ls cs i)
           (num_add pf x1 5) (num_sub pf y1 5)])"

fun boxes_primitives ::
  "platform \<Rightarrow> string list \<Rightarrow> rat list \<Rightarrow> nat \<Rightarrow> box list \<Rightarrow> string \<Rightarrow> string \<Rightarrow> drawn list" where
  "boxes_primitives pf ls cs i [] ss fs = []"
| "boxes_primitives pf ls cs i (b # bs) ss fs =
     box_primitives pf ls cs i b ss fs @
     boxes_primitives pf ls cs (Suc i) bs (style_after (label_color (label_at ls i)) ss) ''#000000''"

fun stroke_before :: "string list \<Rightarrow> nat \<Rightarrow> string \<Rightarrow> nat \<Rightarrow> string" where
  "stroke_before ls i ss 0 = ss"
| "stroke_before ls i ss (Suc k) =
     stroke_before ls (Suc i) (style_after (label_color (label_at ls i)) ss) k"

definition fill_before :: "string \<Rightarrow> nat \<Rightarrow> string" where
  "fill_before fs k = (if k = 0 then fs else ''#000000'')"

text \<open>The canvas shows the image and nothing else: it has the image's size and the
  image at the origin is all that is painted on it.\<close>

definition shows_only :: "image \<Rightarrow> canvas \<Rightarrow> bool" where
  "shows_only img cv =
     (width cv = img_width img \<and> height cv = img_height img \<and> surface cv = [DrawnImage img 0 0])"

definition blank_canvas :: canvas where
  "blank_canvas = reset_context \<lparr>width = 300, height = 150, fillStyle = [], strokeStyle = [],
                                  lineWidth = 0, font = [], surface = []\<rparr>"

text \<open>
  A platform for the examples. It adds and subtracts exactly, every character is 7
  wide, and the percentage is the exact product rounded to the nearest integer (the
  larger one on a tie) in decimal. On the whole numbers and the zero of the examples the
  browser's doubles give the same results.
\<close>

definition digit_char :: "nat \<Rightarrow> char" where
  "digit_char d = ''0123456789'' ! d"

fun show_nat :: "nat \<Rightarrow> string" where
  "show_nat n = (if n < 10 then [digit_char n] else show_nat (n div 10) @ [digit_char (n mod 10)])"

declare show_nat.simps [simp del]

definition toFixed0 :: "rat \<Rightarrow> string" where
  "toFixed0 x =
     (if x < 0 then ''-'' @ show_nat (nat \<lfloor>- x + 1 / 2\<rfloor>) else show_nat (nat \<lfloor>x + 1 / 2\<rfloor>))"

definition exact_platform :: platform where
  "exact_platform =
     \<lparr>measureText = (\<lambda>fnt txt. 7 * of_nat (length txt)),
      num_add = (\<lambda>a b. a + b),
      num_sub = (\<lambda>a b. a - b),
      percent = (\<lambda>conf. toFixed0 (conf * 100))\<rparr>"

text \<open>A detection set with two boxes, one label and no confidence, and a decoded
  frame, for the examples below.\<close>

definition ragged_set :: DetectionSet where
  "ragged_set = \<lparr>count = Some 2, boxes = Some [(10, 10, 50, 50), (100, 120, 180, 200)],
                  labels = Some [''Human''], confidences = Some []\<rparr>"

definition sample_image :: image where
  "sample_image = \<lparr>img_width = 640, img_height = 480, bitmap = [255, 216, 255]\<rparr>"

section \<open>Admin aggregator: src/pages/AdminDashboard.jsx\<close>

text \<open>
  The payload map is a JavaScript object keyed by sid. It is modelled as an association
  list with distinct keys: the spread \<open>{...prev, [k]: v}\<close> overwrites the entry of an
  existing key where it stands and appends a new key, \<open>delete\<close> drops the entry. (For
  keys that look like array indices JavaScript enumerates in numeric order instead; the
  only enumeration of the source is a sum, which does not depend on the order.)
\<close>

fun obj_set :: "string \<Rightarrow> 'v \<Rightarrow> (string \<times> 'v) list \<Rightarrow> (string \<times> 'v) list" where
  "obj_set k v [] = [(k, v)]"
| "obj_set k v ((k', v') # kvs) =
     (if k' = k then (k, v) # kvs else (k', v') # obj_set k v kvs)"

definition obj_delete :: "string \<Rightarrow> (string \<times> 'v) list \<Rightarrow> (string \<times> 'v) list" where
  "obj_delete k kvs = filter (\<lambda>kv. fst kv \<noteq> k) kvs"

definition obj_values :: "(string \<times> 'v) list \<Rightarrow> 'v list" where
  "obj_values kvs = map snd kvs"

definition obj_keys :: "(string \<times> 'v) list \<Rightarrow> string list" where
  "obj_keys kvs = map fst kvs"

record camera_info =
  sid :: string
  username :: string
  camera_id :: string

record CameraRecord = camera_info +
  deployed :: bool

record Stats =
  totalCameras :: nat
  deployedCameras :: nat
  totalDetections :: int
  activeThreats :: int

datatype wire_data = Camera_sid string | Frame string

record admin =
  socket_ref :: "nat option"
  connected :: bool
  cameras :: "CameraRecord list"
  detections :: "(string \<times> DetectionPayload) list"
  stats :: Stats
  alerts :: "string list"
  transport :: "wire_data socket_module"

definition updateStats :: "CameraRecord list \<Rightarrow> admin \<Rightarrow> admin" where
  "updateStats cameraList a =
     a\<lparr>stats := (stats a)\<lparr>totalCameras := length cameraList,
                           deployedCameras := length (filter deployed cameraList)\<rparr>\<rparr>"

text \<open>\<open>Object.values(updatedDetections).reduce((sum, det) => sum + (det.detections?.count || 0), 0)\<close>\<close>

definition currentActiveThreats :: "(string \<times> DetectionPayload) list \<Rightarrow> int" where
  "currentActiveThreats dets = foldl (\<lambda>sum det. sum + detectionCount det) 0 (obj_values dets)"

definition on_connect :: "admin \<Rightarrow> admin" where
  "on_connect a = a\<lparr>connected := True\<rparr>"

definition on_disconnect :: "admin \<Rightarrow> admin" where
  "on_disconnect a = a\<lparr>connected := False\<rparr>"

text \<open>\<open>camera:list\<close>: \<open>data.cameras || []\<close>\<close>

definition on_camera_list :: "CameraRecord list option \<Rightarrow> admin \<Rightarrow> admin" where
  "on_camera_list data_cameras a =
     (let cs = (case data_cameras of None \<Rightarrow> [] | Some cs \<Rightarrow> cs)
      in updateStats cs (a\<lparr>cameras := cs\<rparr>))"

definition on_camera_connected :: "camera_info \<Rightarrow> admin \<Rightarrow> admin" where
  "on_camera_connected data a =
     (let newCameras = cameras a @
            [\<lparr>sid = sid data, username = username data, camera_id = camera_id data,
              deployed = False\<rparr>]
      in updateStats newCameras (a\<lparr>cameras := newCameras\<rparr>))"

definition on_camera_disconnect :: "string \<Rightarrow> admin \<Rightarrow> admin" where
  "on_camera_disconnect data_sid a =
     (let newCameras = filter (\<lambda>cam. sid cam \<noteq> data_sid) (cameras a);
          a1 = updateStats newCameras (a\<lparr>cameras := newCameras\<rparr>)
      in a1\<lparr>detections := obj_delete data_sid (detections a1)\<rparr>)"

definition on_deploy_success :: "string \<Rightarrow> admin \<Rightarrow> admin" where
  "on_deploy_success data_camera_sid a =
     (let newCameras = map (\<lambda>cam. if sid cam = data_camera_sid then cam\<lparr>deployed := True\<rparr> else cam)
                           (cameras a)
      in updateStats newCameras (a\<lparr>cameras := newCameras\<rparr>))"

definition on_detection_result :: "DetectionPayload \<Rightarrow> admin \<Rightarrow> admin" where
  "on_detection_result data a =
     (let updatedDetections = obj_set (DetectionPayload.camera_sid data) data (detections a)
      in a\<lparr>detections := updatedDetections,
           stats := (stats a)\<lparr>totalDetections := totalDetections (stats a) + detectionCount data,
                                activeThreats := currentActiveThreats updatedDetections\<rparr>\<rparr>)"

definition handleDeploy :: "string \<Rightarrow> admin \<Rightarrow> admin" where
  "handleDeploy cameraSid a =
     (if socket_ref a = None \<or> \<not> connected a
      then a\<lparr>alerts := alerts a @ [''Not connected to server'']\<rparr>
      else a\<lparr>transport := emitEvent ''deploy_start'' (Camera_sid cameraSid) (transport a)\<rparr>)"

definition handleStop :: "string \<Rightarrow> admin \<Rightarrow> admin" where
  "handleStop cameraSid a =
     (if socket_ref a = None \<or> \<not> connected a
      then a\<lparr>alerts := alerts a @ [''Not connected to server'']\<rparr>
      else a\<lparr>transport := emitEvent ''deploy_stop'' (Camera_sid cameraSid) (transport a),
             cameras := map (\<lambda>cam. if sid cam = cameraSid then cam\<lparr>deployed := False\<rparr> else cam)
                            (cameras a),
             detections := obj_delete cameraSid (detections a)\<rparr>)"

text \<open>
  The events the dashboard reacts to: the transport's own connect and disconnect, the
  hub's messages, and the two buttons. The handlers run one at a time (a single event
  loop), so a run is a fold over the events.
\<close>

datatype admin_event =
    SocketConnect
  | SocketDisconnect
  | CameraList "CameraRecord list option"
  | CameraConnected camera_info
  | CameraDisconnect string
  | DeploySuccess string
  | DetectionResult DetectionPayload
  | ClickDeploy string
  | ClickStop string

fun admin_step :: "admin \<Rightarrow> admin_event \<Rightarrow> admin" where
  "admin_step a SocketConnect =
     on_connect (case socket_ref a of
                   None \<Rightarrow> a
                 | Some s \<Rightarrow> a\<lparr>transport := transport_connected s (transport a)\<rparr>)"
| "admin_step a SocketDisconnect =
     on_disconnect (case socket_ref a of
                      None \<Rightarrow> a
                    | Some s \<Rightarrow> a\<lparr>transport := transport_lost s ''transport close'' (transport a)\<rparr>)"
| "admin_step a (CameraList cs) = on_camera_list cs a"
| "admin_step a (CameraConnected d) = on_camera_connected d a"
| "admin_step a (CameraDisconnect s) = on_camera_disconnect s a"
| "admin_step a (DeploySuccess s) = on_deploy_success s a"
| "admin_step a (DetectionResult d) = on_detection_result d a"
| "admin_step a (ClickDeploy s) = handleDeploy s a"
| "admin_step a (ClickStop s) = handleStop s a"

definition admin_run :: "admin_event list \<Rightarrow> admin \<Rightarrow> admin" where
  "admin_run evs a = foldl admin_step a evs"

text \<open>The dashboard after its effect ran with a token: the session is requested and
  stored, everything else has its initial value.\<close>

definition admin_mounted :: "string \<Rightarrow> admin" where
  "admin_mounted token =
     (let r = connectSocket (Some token) (fresh_module ''http://hub:8000'')
      in \<lparr>socket_ref = fst r, connected = False, cameras = [], detections = [],
          stats = \<lparr>totalCameras = 0, deployedCameras = 0, totalDetections = 0, activeThreats = 0\<rparr>,
          alerts = [], transport = snd r\<rparr>)"

text \<open>
  The payload of the specification's scenario: camera \<open>cam1\<close> with session id \<open>1\<close>
  reports one weapon with confidence 0.87.
\<close>

definition scenario_payload :: DetectionPayload where
  "scenario_payload =
     \<lparr>DetectionPayload.camera_id = ''cam1'', camera_sid = ''1'', frame = ''/9j/4AAQ'',
      DetectionPayload.detections =
        Some \<lparr>count = Some 1, boxes = Some [(10, 10, 50, 50)],
              labels = Some [''Weapon''], confidences = Some [87 / 100]\<rparr>,
      timestamp = 1700000000\<rparr>"

text \<open>Every held payload is stored under the sid it carries.\<close>

definition keyed_by_sid :: "(string \<times> DetectionPayload) list \<Rightarrow> bool" where
  "keyed_by_sid dets = list_all (\<lambda>kv. camera_sid (snd kv) = fst kv) dets"

section \<open>Camera node: src/pages/CameraClient.jsx\<close>

text \<open>
  The state of the camera page: its React state (\<open>connected\<close>, \<open>deployed\<close>, \<open>streaming\<close>,
  \<open>currentDetection\<close>, \<open>stats.status\<close>), its reference cells (\<open>streamRef\<close>, \<open>intervalRef\<close>,
  \<open>videoRef\<close>, \<open>socketRef\<close>, \<open>isConnectedRef\<close>), and the part of the browser that the page
  acts on: the interval timers that are scheduled, the media tracks whose device is
  open, the pending \<open>getUserMedia\<close> requests, the alerts shown. State variables whose
  name the admin page also uses carry the prefix \<open>cam_\<close>.

  \<open>setInterval\<close> returns a positive integer, so a handle stored in \<open>intervalRef\<close> is
  always truthy; handles are a type of their own and \<open>None\<close> is the null reference.
  A media stream is the list of its tracks.

  The listeners are created once, by the effect that runs when the token changes. The
  \<open>stopStreaming\<close> they call is the one of that render, so it reads the \<open>deployed\<close> of
  that render (\<open>deployed_in_closure\<close>), not the current one.
\<close>

datatype interval_handle = IntervalHandle nat

datatype MediaStream = MediaStream (getTracks: "nat list")

record video_element =
  srcObject :: "MediaStream option"
  onloadedmetadata :: bool

record camera =
  cam_connected :: bool
  isConnectedRef :: bool
  cam_deployed :: bool
  deployed_in_closure :: bool
  streaming :: bool
  currentDetection :: "DetectionPayload option"
  status :: string
  socketRef :: "nat option"
  streamRef :: "MediaStream option"
  intervalRef :: "interval_handle option"
  videoRef :: "video_element option"
  cam_transport :: "wire_data socket_module"
  cam_alerts :: "string list"
  getUserMedia_supported :: bool
  pending_getUserMedia :: nat
  active_intervals :: "interval_handle set"
  next_interval :: nat
  live_tracks :: "nat set"

definition setStatus :: "string \<Rightarrow> camera \<Rightarrow> camera" where
  "setStatus s c = c\<lparr>status := s\<rparr>"

definition clearInterval :: "interval_handle \<Rightarrow> camera \<Rightarrow> camera" where
  "clearInterval h c = c\<lparr>active_intervals := active_intervals c - {h}\<rparr>"

definition setInterval :: "camera \<Rightarrow> interval_handle \<times> camera" where
  "setInterval c =
     (IntervalHandle (next_interval c),
      c\<lparr>active_intervals := insert (IntervalHandle (next_interval c)) (active_intervals c),
        next_interval := Suc (next_interval c)\<rparr>)"

text \<open>\<open>stream.getTracks().forEach(track => track.stop())\<close>\<close>

definition stop_tracks :: "MediaStream \<Rightarrow> camera \<Rightarrow> camera" where
  "stop_tracks s c = c\<lparr>live_tracks := live_tracks c - set (getTracks s)\<rparr>"

definition stopStreaming :: "camera \<Rightarrow> camera" where
  "stopStreaming c =
     (let c1 = (case intervalRef c of
                  None \<Rightarrow> c
                | Some h \<Rightarrow> (clearInterval h c)\<lparr>intervalRef := None\<rparr>);
          c2 = (case streamRef c1 of
                  None \<Rightarrow> c1
                | Some s \<Rightarrow> (stop_tracks s c1)\<lparr>streamRef := None\<rparr>);
          c3 = (case videoRef c2 of
                  None \<Rightarrow> c2
                | Some v \<Rightarrow> c2\<lparr>videoRef := Some (v\<lparr>srcObject := None\<rparr>)\<rparr>)
      in setStatus (if deployed_in_closure c3 then ''DEPLOYED'' else ''IDLE'')
           (c3\<lparr>streaming := False, currentDetection := None\<rparr>))"

text \<open>
  \<open>startStreaming\<close> is asynchronous. Up to its \<open>await\<close> it runs inside the caller: it
  either throws at once because \<open>getUserMedia\<close> does not exist, which its own \<open>catch\<close>
  handles, or it leaves a request pending. The rest runs when the browser settles the
  request: with a stream (whose tracks the browser has opened), or with an error.
\<close>

definition startStreaming_catch :: "string \<Rightarrow> camera \<Rightarrow> camera" where
  "startStreaming_catch message c =
     setStatus ''ERROR''
       (c\<lparr>cam_alerts := cam_alerts c @
            [''Failed to access webcam: '' @ message @ ''. Please grant camera permissions.'']\<rparr>)"

definition startStreaming :: "camera \<Rightarrow> camera" where
  "startStreaming c =
     (if \<not> getUserMedia_supported c
      then startStreaming_catch ''getUserMedia is not supported in this browser'' c
      else c\<lparr>pending_getUserMedia := Suc (pending_getUserMedia c)\<rparr>)"

definition getUserMedia_resolved :: "MediaStream \<Rightarrow> camera \<Rightarrow> camera" where
  "getUserMedia_resolved s c =
     (let c0 = c\<lparr>pending_getUserMedia := pending_getUserMedia c - 1,
                 live_tracks := live_tracks c \<union> set (getTracks s)\<rparr>;
          c1 = c0\<lparr>streamRef := Some s\<rparr>;
          c2 = (case videoRef c1 of
                  None \<Rightarrow> c1
                | Some v \<Rightarrow> c1\<lparr>videoRef := Some (v\<lparr>srcObject := Some s, onloadedmetadata := True\<rparr>)\<rparr>);
          c3 = (case intervalRef c2 of None \<Rightarrow> c2 | Some h \<Rightarrow> clearInterval h c2);
          r = setInterval c3
      in (snd r)\<lparr>intervalRef := Some (fst r)\<rparr>)"

definition getUserMedia_rejected :: "string \<Rightarrow> camera \<Rightarrow> camera" where
  "getUserMedia_rejected message c =
     startStreaming_catch message (c\<lparr>pending_getUserMedia := pending_getUserMedia c - 1\<rparr>)"

text \<open>The \<open>onloadedmetadata\<close> callback: \<open>play()\<close> succeeds or its rejection is caught;
  without a mounted video element the call itself throws and is caught as well.\<close>

definition video_loadedmetadata :: "bool \<Rightarrow> camera \<Rightarrow> camera" where
  "video_loadedmetadata play_ok c =
     (case videoRef c of
        None \<Rightarrow> c
      | Some v \<Rightarrow> if play_ok then setStatus ''STREAMING'' (c\<lparr>streaming := True\<rparr>) else c)"

text \<open>The listeners that the effect registers on the session object.\<close>

definition cam_on_connect :: "camera \<Rightarrow> camera" where
  "cam_on_connect c = setStatus ''CONNECTED'' (c\<lparr>cam_connected := True, isConnectedRef := True\<rparr>)"

definition cam_on_disconnect :: "string \<Rightarrow> camera \<Rightarrow> camera" where
  "cam_on_disconnect reason c =
     stopStreaming
       (setStatus ''DISCONNECTED''
          (c\<lparr>cam_connected := False, isConnectedRef := False, cam_deployed := False\<rparr>))"

definition on_deploy_assigned :: "camera \<Rightarrow> camera" where
  "on_deploy_assigned c = startStreaming (setStatus ''DEPLOYED'' (c\<lparr>cam_deployed := True\<rparr>))"

definition on_deploy_stop :: "camera \<Rightarrow> camera" where
  "on_deploy_stop c = stopStreaming (setStatus ''STOPPED'' (c\<lparr>cam_deployed := False\<rparr>))"

definition cam_on_detection_result :: "DetectionPayload \<Rightarrow> camera \<Rightarrow> camera" where
  "cam_on_detection_result data c = c\<lparr>currentDetection := Some data\<rparr>"

text \<open>
  The cleanup of the effect: \<open>stopStreaming(); disconnectSocket();\<close>. When the module's
  session is the object the listeners are registered on and it is connected, the
  library's \<open>disconnect()\<close> fires the \<open>disconnect\<close> listener before it returns.
\<close>

definition effect_cleanup :: "camera \<Rightarrow> camera" where
  "effect_cleanup c =
     (let c1 = stopStreaming c;
          fires = (isConnected (cam_transport c1) \<and> socket (cam_transport c1) = socketRef c1);
          c2 = c1\<lparr>cam_transport := disconnectSocket (cam_transport c1)\<rparr>
      in if fires then cam_on_disconnect ''io client disconnect'' c2 else c2)"

text \<open>The three triggers that stop the capture loop.\<close>

datatype stop_trigger = DeployStopCommand | TransportDisconnect string | ComponentTeardown

fun on_stop_trigger :: "stop_trigger \<Rightarrow> camera \<Rightarrow> camera" where
  "on_stop_trigger DeployStopCommand c = on_deploy_stop c"
| "on_stop_trigger (TransportDisconnect reason) c =
     cam_on_disconnect reason
       (case socketRef c of
          None \<Rightarrow> c
        | Some s \<Rightarrow> c\<lparr>cam_transport := transport_lost s reason (cam_transport c)\<rparr>)"
| "on_stop_trigger ComponentTeardown c = effect_cleanup c"

text \<open>Everything that can happen to the page, one event at a time. The browser
  settles a \<open>getUserMedia\<close> request only when one is pending.\<close>

datatype camera_event =
    TransportConnect
  | StopTrigger stop_trigger
  | DeployAssigned
  | DetectionArrived DetectionPayload
  | GetUserMediaResolved MediaStream
  | GetUserMediaRejected string
  | VideoLoadedMetadata bool
  | VideoElement bool

fun camera_step :: "camera \<Rightarrow> camera_event \<Rightarrow> camera" where
  "camera_step c TransportConnect =
     cam_on_connect (case socketRef c of
                       None \<Rightarrow> c
                     | Some s \<Rightarrow> c\<lparr>cam_transport := transport_connected s (cam_transport c)\<rparr>)"
| "camera_step c (StopTrigger t) = on_stop_trigger t c"
| "camera_step c DeployAssigned = on_deploy_assigned c"
| "camera_step c (DetectionArrived d) = cam_on_detection_result d c"
| "camera_step c (GetUserMediaResolved s) =
     (if pending_getUserMedia c = 0 then c else getUserMedia_resolved s c)"
| "camera_step c (GetUserMediaRejected message) =
     (if pending_getUserMedia c = 0 then c else getUserMedia_rejected message c)"
| "camera_step c (VideoLoadedMetadata play_ok) =
     (case videoRef c of
        None \<Rightarrow> c
      | Some v \<Rightarrow> if onloadedmetadata v then video_loadedmetadata play_ok c else c)"
| "camera_step c (VideoElement mounted) =
     c\<lparr>videoRef := (if mounted then Some \<lparr>srcObject = None, onloadedmetadata = False\<rparr> else None)\<rparr>"

definition camera_run :: "camera_event list \<Rightarrow> camera \<Rightarrow> camera" where
  "camera_run evs c = foldl camera_step c evs"

text \<open>The page after its effect ran with a token, in a browser that does or does not
  offer \<open>getUserMedia\<close>.\<close>

definition camera_mounted :: "string \<Rightarrow> bool \<Rightarrow> camera" where
  "camera_mounted token supported =
     (let r = connectSocket (Some token) (fresh_module ''http://hub:8000'')
      in \<lparr>cam_connected = False, isConnectedRef = False, cam_deployed = False,
          deployed_in_closure = False, streaming = False, currentDetection = None,
          status = ''IDLE'', socketRef = fst r, streamRef = None, intervalRef = None,
          videoRef = Some \<lparr>srcObject = None, onloadedmetadata = False\<rparr>,
          cam_transport = snd r, cam_alerts = [],
          getUserMedia_supported = supported, pending_getUserMedia = 0,
          active_intervals = {}, next_interval = 1, live_tracks = {}\<rparr>)"

text \<open>No timer is scheduled but the one whose handle \<open>intervalRef\<close> holds.\<close>

definition timers_tracked :: "camera \<Rightarrow> bool" where
  "timers_tracked c = (active_intervals c \<subseteq> set_option (intervalRef c))"

text \<open>A camera that is streaming: connected, deployed, the stream with tracks 7 and 8
  acquired, the video playing, a detection shown.\<close>

definition streaming_camera :: camera where
  "streaming_camera =
     camera_run [TransportConnect, DeployAssigned, GetUserMediaResolved (MediaStream [7, 8]),
                 VideoLoadedMetadata True, DetectionArrived scenario_payload]
       (camera_mounted ''jwt'' True)"

text \<open>A camera that was deployed twice without a stop in between: the browser
  answered the first request with the stream of track 7 and the second with the stream
  of track 8.\<close>

definition redeployed_camera :: camera where
  "redeployed_camera =
     camera_run [TransportConnect, DeployAssigned, GetUserMediaResolved (MediaStream [7]),
                 DeployAssigned, GetUserMediaResolved (MediaStream [8])]
       (camera_mounted ''jwt'' True)"

section \<open>Properties of the transport session\<close>

lemma connectSocket_new_session:
  "\<not> isConnected m \<Longrightarrow> token_text token \<noteq> [] \<Longrightarrow>
   fst (connectSocket token m) = Some (length (sockets m)) \<and>
   socket (snd (connectSocket token m)) = Some (length (sockets m)) \<and>
   length (sockets (snd (connectSocket token m))) = Suc (length (sockets m))"
  by (simp add: connectSocket_def Let_def console_log_def)

text \<open>
  C5. A call of \<open>connectSocket\<close> while the module's session is connected returns that
  same session object and issues no handshake: the module variable, the store of
  socket objects (one per handshake) and the emitted messages are unchanged, only a
  console line is written. The token of the second call plays no role.
\<close>

theorem connectSocket_idempotent_when_connected:
  assumes "socket m = Some s" and "object_connected m s"
  shows "fst (connectSocket token m) = Some s
       \<and> snd (connectSocket token m) = console_log ''Socket already connected'' m
       \<and> socket (snd (connectSocket token m)) = Some s
       \<and> sockets (snd (connectSocket token m)) = sockets m
       \<and> length (sockets (snd (connectSocket token m))) = length (sockets m)
       \<and> emitted (snd (connectSocket token m)) = emitted m"
  using assms by (simp add: connectSocket_def isConnected_def console_log_def)

theorem connectSocket_idempotent_witness:
  "fst (connectSocket (Some ''jwt'') (fresh_module ''http://hub:8000'' :: unit socket_module)) = Some 0
   \<and> socket (transport_connected 0 (snd (connectSocket (Some ''jwt'')
         (fresh_module ''http://hub:8000'' :: unit socket_module)))) = Some 0
   \<and> object_connected (transport_connected 0 (snd (connectSocket (Some ''jwt'')
         (fresh_module ''http://hub:8000'' :: unit socket_module)))) 0
   \<and> fst (connectSocket (Some ''other'') (transport_connected 0 (snd (connectSocket (Some ''jwt'')
         (fresh_module ''http://hub:8000'' :: unit socket_module))))) = Some 0
   \<and> length (sockets (snd (connectSocket (Some ''other'') (transport_connected 0
         (snd (connectSocket (Some ''jwt'')
           (fresh_module ''http://hub:8000'' :: unit socket_module))))))) = 1"
proof -
  define m2 where "m2 = transport_connected 0 (snd (connectSocket (Some ''jwt'')
         (fresh_module ''http://hub:8000'' :: unit socket_module)))"
  have first: "fst (connectSocket (Some ''jwt'')
         (fresh_module ''http://hub:8000'' :: unit socket_module)) = Some 0"
    by (simp add: connectSocket_def fresh_module_def isConnected_def console_log_def
        token_text_def Let_def)
  have var: "socket m2 = Some 0"
    by (simp add: m2_def connectSocket_def fresh_module_def isConnected_def console_log_def
        token_text_def transport_connected_def Let_def)
  have conn: "object_connected m2 0"
    by (simp add: m2_def connectSocket_def fresh_module_def isConnected_def console_log_def
        token_text_def transport_connected_def object_connected_def Let_def)
  have store: "length (sockets m2) = 1"
    by (simp add: m2_def connectSocket_def fresh_module_def isConnected_def console_log_def
        token_text_def transport_connected_def Let_def)
  from connectSocket_idempotent_when_connected [OF var conn, of "Some ''other''"] first var conn store
  show ?thesis unfolding m2_def by (simp add: console_log_def)
qed

text \<open>
  C9. \<open>emitEvent\<close> on a module whose session was never initialised, or whose session
  object is not connected, returns normally (the function has no exceptional outcome on
  this path), emits no message, and leaves exactly one trace: a console error that
  names the event.
\<close>

theorem emitEvent_disconnected_logs_only:
  assumes "\<not> isConnected m"
  shows "emitEvent event data m =
           console_error (''Socket not connected, cannot emit event: '' @ event) m
       \<and> emitted (emitEvent event data m) = emitted m
       \<and> console (emitEvent event data m) =
           console m @ [ConsoleError (''Socket not connected, cannot emit event: '' @ event)]
       \<and> socket (emitEvent event data m) = socket m
       \<and> sockets (emitEvent event data m) = sockets m"
  using assms
  by (auto simp add: emitEvent_def isConnected_def console_error_def split: option.splits)

theorem emitEvent_disconnected_witness:
  "\<not> isConnected (fresh_module ''http://hub:8000'' :: nat socket_module)
   \<and> emitted (emitEvent ''camera_frame'' 7 (fresh_module ''http://hub:8000'' :: nat socket_module)) = []
   \<and> console (emitEvent ''camera_frame'' 7 (fresh_module ''http://hub:8000'' :: nat socket_module)) =
       [ConsoleError ''Socket not connected, cannot emit event: camera_frame'']
   \<and> \<not> isConnected (snd (connectSocket (Some ''jwt'') (fresh_module ''h'' :: nat socket_module)))
   \<and> emitted (emitEvent ''deploy_stop'' 3
         (snd (connectSocket (Some ''jwt'') (fresh_module ''h'' :: nat socket_module)))) = []"
proof -
  have never: "\<not> isConnected (fresh_module ''http://hub:8000'' :: nat socket_module)"
    by (simp add: isConnected_def fresh_module_def)
  have pending: "\<not> isConnected (snd (connectSocket (Some ''jwt'') (fresh_module ''h'' :: nat socket_module)))"
    by (simp add: connectSocket_def fresh_module_def isConnected_def console_log_def
        token_text_def object_connected_def Let_def)
  have e: "emitted (snd (connectSocket (Some ''jwt'') (fresh_module ''h'' :: nat socket_module))) = []"
    by (simp add: connectSocket_def fresh_module_def isConnected_def console_log_def
        token_text_def Let_def)
  from emitEvent_disconnected_logs_only [OF never, of "''camera_frame''" 7]
       emitEvent_disconnected_logs_only [OF pending, of "''deploy_stop''" 3] never pending e
  show ?thesis by (simp add: fresh_module_def console_error_def)
qed

section \<open>Properties of the admin aggregator\<close>

lemmas admin_handlers =
  admin_run_def on_detection_result_def on_camera_disconnect_def
  on_camera_connected_def on_deploy_success_def handleStop_def handleDeploy_def
  on_connect_def on_disconnect_def on_camera_list_def updateStats_def

lemmas admin_start =
  admin_mounted_def connectSocket_def fresh_module_def isConnected_def console_log_def
  token_text_def

lemma currentActiveThreats_sum_list:
  "currentActiveThreats dets = sum_list (map detectionCount (obj_values dets))"
proof -
  have "foldl (\<lambda>sum det. sum + detectionCount det) acc xs = acc + sum_list (map detectionCount xs)"
    for acc xs
    by (induction xs arbitrary: acc) simp_all
  then show ?thesis by (simp add: currentActiveThreats_def)
qed

text \<open>On an arrival the counter is recomputed from the map that now holds the arrival.\<close>

lemma on_detection_result_recomputes:
  "activeThreats (stats (on_detection_result data a)) =
     currentActiveThreats (detections (on_detection_result data a))"
  by (simp add: on_detection_result_def Let_def)

text \<open>The two removals leave \<open>activeThreats\<close> as it was, whatever the map held.\<close>

lemma removal_keeps_activeThreats:
  "activeThreats (stats (on_camera_disconnect s a)) = activeThreats (stats a)
   \<and> activeThreats (stats (handleStop s a)) = activeThreats (stats a)"
  by (simp add: on_camera_disconnect_def handleStop_def updateStats_def Let_def)

text \<open>
  C1. The claim is that after every arrival and every removal \<open>activeThreats\<close> is the
  sum of the counts of the held payloads. The code recomputes the sum on an arrival
  only. Here the scenario payload (count 1) arrives for sid \<open>1\<close> and then camera \<open>1\<close>
  disconnects, respectively the admin stops it: the map is empty, its sum is 0, and
  \<open>activeThreats\<close> still reads 1.
\<close>

theorem activeThreats_stale_after_removal:
  "activeThreats (stats (admin_run [DetectionResult scenario_payload, CameraDisconnect ''1'']
       (admin_mounted ''jwt''))) = 1
   \<and> detections (admin_run [DetectionResult scenario_payload, CameraDisconnect ''1'']
       (admin_mounted ''jwt'')) = []
   \<and> currentActiveThreats (detections
       (admin_run [DetectionResult scenario_payload, CameraDisconnect ''1'']
         (admin_mounted ''jwt''))) = 0
   \<and> activeThreats (stats
       (admin_run [SocketConnect, DetectionResult scenario_payload, ClickStop ''1'']
         (admin_mounted ''jwt''))) = 1
   \<and> currentActiveThreats (detections
       (admin_run [SocketConnect, DetectionResult scenario_payload, ClickStop ''1'']
         (admin_mounted ''jwt''))) = 0"
  by (simp add: admin_handlers admin_start scenario_payload_def Let_def
      currentActiveThreats_def obj_values_def obj_delete_def detectionCount_def)

lemma keyed_by_sid_obj_set:
  "keyed_by_sid dets \<Longrightarrow> camera_sid v = k \<Longrightarrow> keyed_by_sid (obj_set k v dets)"
  by (induction dets) (auto simp add: keyed_by_sid_def)

lemma keyed_by_sid_obj_delete:
  "keyed_by_sid dets \<Longrightarrow> keyed_by_sid (obj_delete k dets)"
  by (simp add: keyed_by_sid_def obj_delete_def list_all_iff)

lemma keyed_by_sid_step:
  "keyed_by_sid (detections a) \<Longrightarrow> keyed_by_sid (detections (admin_step a ev))"
  by (cases ev)
     (auto simp add: admin_handlers Let_def keyed_by_sid_obj_set keyed_by_sid_obj_delete
        split: option.splits)

lemma keyed_by_sid_run:
  "keyed_by_sid (detections a) \<Longrightarrow> keyed_by_sid (detections (admin_run evs a))"
  unfolding admin_run_def
  by (induction evs arbitrary: a) (simp_all add: keyed_by_sid_step)

lemma keyed_by_sid_mounted: "keyed_by_sid (detections (admin_mounted token))"
  by (simp add: admin_mounted_def keyed_by_sid_def Let_def)

text \<open>
  C2. The handler of \<open>camera:disconnect\<close> with sid \<open>s\<close>, run in any state, leaves no
  camera record with sid \<open>s\<close> and no entry under the key \<open>s\<close> in the payload map; records
  and payloads of other sids are kept. In every state the dashboard can reach from its
  start, moreover, no held payload at all carries \<open>camera_sid = s\<close> after the handler.
\<close>

theorem camera_disconnect_removes_record_and_payload:
  "s \<notin> sid ` set (cameras (on_camera_disconnect s a))
   \<and> s \<notin> set (obj_keys (detections (on_camera_disconnect s a)))
   \<and> map_of (detections (on_camera_disconnect s a)) s = None
   \<and> cameras (on_camera_disconnect s a) = filter (\<lambda>cam. sid cam \<noteq> s) (cameras a)
   \<and> (\<forall>k. k \<noteq> s \<longrightarrow> map_of (detections (on_camera_disconnect s a)) k = map_of (detections a) k)
   \<and> (\<forall>p \<in> set (obj_values (detections
          (admin_run (evs @ [CameraDisconnect s]) (admin_mounted token)))).
          camera_sid p \<noteq> s)"
proof -
  have local: "s \<notin> sid ` set (cameras (on_camera_disconnect s a))
      \<and> s \<notin> set (obj_keys (detections (on_camera_disconnect s a)))
      \<and> map_of (detections (on_camera_disconnect s a)) s = None
      \<and> cameras (on_camera_disconnect s a) = filter (\<lambda>cam. sid cam \<noteq> s) (cameras a)"
    by (auto simp add: on_camera_disconnect_def Let_def updateStats_def obj_delete_def
        obj_keys_def map_of_eq_None_iff)
  have others: "k \<noteq> s \<Longrightarrow>
      map_of (detections (on_camera_disconnect s a)) k = map_of (detections a) k" for k
  proof -
    assume "k \<noteq> s"
    then have "map_of (filter (\<lambda>kv. fst kv \<noteq> s) kvs) k = map_of kvs k"
      for kvs :: "(string \<times> DetectionPayload) list"
      by (induction kvs) auto
    then show ?thesis
      by (simp add: on_camera_disconnect_def Let_def updateStats_def obj_delete_def)
  qed
  define b where "b = admin_run evs (admin_mounted token)"
  have run: "admin_run (evs @ [CameraDisconnect s]) (admin_mounted token) = on_camera_disconnect s b"
    by (simp add: admin_run_def b_def)
  have keyed: "keyed_by_sid (detections (on_camera_disconnect s b))"
    using keyed_by_sid_step [of b "CameraDisconnect s"] keyed_by_sid_run [OF keyed_by_sid_mounted]
    by (simp add: b_def)
  have nokey: "s \<notin> fst ` set (detections (on_camera_disconnect s b))"
    by (auto simp add: on_camera_disconnect_def Let_def updateStats_def obj_delete_def)
  have reach: "\<forall>p \<in> set (obj_values (detections (on_camera_disconnect s b))). camera_sid p \<noteq> s"
  proof
    fix p assume "p \<in> set (obj_values (detections (on_camera_disconnect s b)))"
    then obtain k where kp: "(k, p) \<in> set (detections (on_camera_disconnect s b))"
      by (auto simp add: obj_values_def)
    with keyed have "camera_sid p = k"
      by (auto simp add: keyed_by_sid_def list_all_iff)
    moreover from kp nokey have "k \<noteq> s" by force
    ultimately show "camera_sid p \<noteq> s" by simp
  qed
  from local others reach run show ?thesis by auto
qed

theorem camera_disconnect_witness:
  "detections (admin_run [DetectionResult scenario_payload] (admin_mounted ''jwt'')) =
     [(''1'', scenario_payload)]
   \<and> (''1'' :: string) \<noteq> ''2''
   \<and> map_of (detections (on_camera_disconnect ''2''
        (admin_run [DetectionResult scenario_payload] (admin_mounted ''jwt'')))) ''1''
      = Some scenario_payload
   \<and> detections (admin_run ([DetectionResult scenario_payload] @ [CameraDisconnect ''1''])
        (admin_mounted ''jwt'')) = []
   \<and> ''1'' \<notin> sid ` set (cameras (on_camera_disconnect ''1''
        (admin_run [CameraConnected \<lparr>sid = ''1'', username = ''a'', camera_id = ''cam1''\<rparr>]
           (admin_mounted ''jwt''))))"
proof -
  have held: "detections (admin_run [DetectionResult scenario_payload] (admin_mounted ''jwt'')) =
     [(''1'', scenario_payload)]"
    by (simp add: admin_handlers admin_start Let_def scenario_payload_def)
  have ne: "(''1'' :: string) \<noteq> ''2''" by simp
  from camera_disconnect_removes_record_and_payload
         [of "''2''" "admin_run [DetectionResult scenario_payload] (admin_mounted ''jwt'')"
             "[DetectionResult scenario_payload]" "''jwt''"]
       camera_disconnect_removes_record_and_payload
         [of "''1''"
             "admin_run [CameraConnected \<lparr>sid = ''1'', username = ''a'', camera_id = ''cam1''\<rparr>]
                (admin_mounted ''jwt'')"
             "[DetectionResult scenario_payload]" "''jwt''"]
       held ne
  show ?thesis
    by (simp add: admin_handlers admin_start Let_def obj_delete_def scenario_payload_def)
qed

text \<open>
  C10. \<open>camera:connected\<close> appends a record with \<open>deployed = false\<close> to the registry
  without looking for a record of the same sid, and \<open>totalCameras\<close> becomes the length
  of the new list. Two such events with the same sid therefore leave two records of that
  sid, and both are counted.
\<close>

theorem camera_connected_appends_without_dedup:
  "cameras (on_camera_connected d a) =
     cameras a @ [\<lparr>sid = sid d, username = username d, camera_id = camera_id d, deployed = False\<rparr>]
   \<and> totalCameras (stats (on_camera_connected d a)) = length (cameras a) + 1
   \<and> cameras (on_camera_connected (d'\<lparr>sid := sid d\<rparr>) (on_camera_connected d a)) =
     cameras a @ [\<lparr>sid = sid d, username = username d, camera_id = camera_id d, deployed = False\<rparr>,
                  \<lparr>sid = sid d, username = username d', camera_id = camera_id d', deployed = False\<rparr>]
   \<and> totalCameras (stats (on_camera_connected (d'\<lparr>sid := sid d\<rparr>) (on_camera_connected d a))) =
     length (cameras a) + 2
   \<and> length (filter (\<lambda>cam. sid cam = sid d)
        (cameras (on_camera_connected (d'\<lparr>sid := sid d\<rparr>) (on_camera_connected d a)))) =
     length (filter (\<lambda>cam. sid cam = sid d) (cameras a)) + 2"
  by (simp add: on_camera_connected_def Let_def updateStats_def)

section \<open>Properties of the overlay renderer\<close>

lemma draw_box_surface:
  "surface (draw_box pf ls cs i b ctx) =
     surface ctx @ box_primitives pf ls cs i b (strokeStyle ctx) (fillStyle ctx)"
  by (cases b) (simp add: draw_box_def box_primitives_def strokeRect_def fillRect_def fillText_def Let_def)

lemma draw_box_styles:
  "strokeStyle (draw_box pf ls cs i b ctx) = style_after (label_color (label_at ls i)) (strokeStyle ctx)
   \<and> fillStyle (draw_box pf ls cs i b ctx) = ''#000000''"
  by (cases b) (simp add: draw_box_def strokeRect_def fillRect_def fillText_def Let_def)

lemma forEach_box_surface:
  "surface (forEach_box pf ls cs i bs ctx) =
     surface ctx @ boxes_primitives pf ls cs i bs (strokeStyle ctx) (fillStyle ctx)"
  by (induction bs arbitrary: i ctx) (simp_all add: draw_box_surface draw_box_styles)

lemma forEach_box_size:
  "width (forEach_box pf ls cs i bs ctx) = width ctx \<and> height (forEach_box pf ls cs i bs ctx) = height ctx"
proof (induction bs arbitrary: i ctx)
  case Nil show ?case by simp
next
  case (Cons b bs)
  have "width (draw_box pf ls cs i b ctx) = width ctx \<and> height (draw_box pf ls cs i b ctx) = height ctx"
    by (cases b) (simp add: draw_box_def strokeRect_def fillRect_def fillText_def Let_def)
  with Cons show ?case by simp
qed

lemma length_box_primitives: "length (box_primitives pf ls cs i b ss fs) = 3"
  by (cases b) (simp add: box_primitives_def)

lemma length_boxes_primitives: "length (boxes_primitives pf ls cs i bs ss fs) = 3 * length bs"
  by (induction bs arbitrary: i ss fs) (simp_all add: length_box_primitives)

lemma boxes_primitives_nth:
  "k < length bs \<Longrightarrow> j < 3 \<Longrightarrow>
   boxes_primitives pf ls cs i bs ss fs ! (3 * k + j) =
     box_primitives pf ls cs (i + k) (bs ! k) (stroke_before ls i ss k) (fill_before fs k) ! j"
proof (induction bs arbitrary: i k ss fs)
  case Nil then show ?case by simp
next
  case (Cons b bs)
  show ?case
  proof (cases k)
    case 0
    with Cons.prems show ?thesis
      by (simp add: nth_append length_box_primitives fill_before_def)
  next
    case (Suc k')
    with Cons.prems have "k' < length bs" by simp
    from Cons.IH [OF this Cons.prems(2), of "Suc i" "style_after (label_color (label_at ls i)) ss"
                    "''#000000''"] Suc Cons.prems(2)
    show ?thesis
      by (simp add: nth_append length_box_primitives fill_before_def)
  qed
qed

lemma toFixed0_zero: "toFixed0 0 = ''0''"
  by code_simp

lemma past_end_defaults:
  "length ls \<le> i \<Longrightarrow> label_at ls i = ''Unknown''"
  "length cs \<le> i \<Longrightarrow> confidence_at cs i = 0"
  by (simp_all add: label_at_def confidence_at_def)

lemma unknown_is_green: "style_after (label_color ''Unknown'') previous = ''#00FF00''"
  by (simp add: style_after_def label_color_def colorMap_def object_prototype_keys_def)

text \<open>A label that names an inherited property: the outline keeps the red of the box
  before it and the chip is filled with the black that box left as fill style.\<close>

lemma inherited_key_keeps_style:
  "(case drawBoundingBoxes exact_platform
           \<lparr>count = Some 2, boxes = Some [(10, 10, 50, 50), (100, 120, 180, 200)],
            labels = Some [''Weapon'', ''constructor''], confidences = Some [1, 1]\<rparr>
           blank_canvas of
      Inl f \<Rightarrow> []
    | Inr ctx' \<Rightarrow> surface ctx') =
   [StrokedRect ''#FF0000'' 3 10 10 40 40,
    FilledRect ''#FF0000'' 10 (- 10) 87 20,
    FilledText ''#000000'' ''14px Arial'' ''Weapon 100%'' 15 5,
    StrokedRect ''#FF0000'' 3 100 120 80 80,
    FilledRect ''#000000'' 100 100 122 20,
    FilledText ''#000000'' ''14px Arial'' ''constructor 100%'' 105 115]"
  by code_simp

text \<open>
  C4. When the three arrays are present, whatever their lengths, \<open>drawBoundingBoxes\<close>
  returns without a fault and paints three primitives per box, in box order: the
  outline, the chip and the text, each with the label and the confidence read at the
  box's index and with the styles in force (a label whose table entry is not a colour
  leaves the style as the box before left it). For a box index past the end of \<open>labels\<close>
  the label is \<open>Unknown\<close> and the colour is the default green, whatever the style was
  before; for an index past the end of \<open>confidences\<close> the confidence is 0, so the text
  carries the percentage of 0, which reads \<open>0%\<close> where the platform prints zero as \<open>0\<close>.
\<close>

theorem drawBoundingBoxes_mismatched_lengths:
  assumes "boxes ds = Some bs" and "labels ds = Some ls" and "confidences ds = Some cs"
  shows "\<exists>ctx'. drawBoundingBoxes pf ds ctx = Inr ctx'
      \<and> length (surface ctx') = length (surface ctx) + 3 * length bs
      \<and> (\<forall>i<length bs. case bs ! i of (x1, y1, x2, y2) \<Rightarrow>
            surface ctx' ! (length (surface ctx) + 3 * i) =
              StrokedRect (style_after (label_color (label_at ls i))
                             (stroke_before ls 0 (strokeStyle ctx) i))
                3 x1 y1 (num_sub pf x2 x1) (num_sub pf y2 y1)
          \<and> surface ctx' ! (length (surface ctx) + 3 * i + 1) =
              FilledRect (style_after (label_color (label_at ls i))
                            (fill_before (fillStyle ctx) i))
                x1 (num_sub pf y1 20)
                (num_add pf (measureText pf ''14px Arial'' (labelText pf ls cs i)) 10) 20
          \<and> surface ctx' ! (length (surface ctx) + 3 * i + 2) =
              FilledText ''#000000'' ''14px Arial'' (labelText pf ls cs i)
                (num_add pf x1 5) (num_sub pf y1 5))
      \<and> (\<forall>i. length ls \<le> i \<longrightarrow>
            label_at ls i = ''Unknown''
          \<and> (\<forall>previous. style_after (label_color (label_at ls i)) previous = ''#00FF00'')
          \<and> labelText pf ls cs i = ''Unknown '' @ percent pf (confidence_at cs i) @ ''%'')
      \<and> (\<forall>i. length cs \<le> i \<longrightarrow>
            confidence_at cs i = 0
          \<and> labelText pf ls cs i = label_at ls i @ '' '' @ percent pf 0 @ ''%''
          \<and> (percent pf 0 = ''0'' \<longrightarrow> labelText pf ls cs i = label_at ls i @ '' 0%''))"
proof -
  define ctx' where "ctx' = forEach_box pf ls cs 0 bs ctx"
  have res: "drawBoundingBoxes pf ds ctx = Inr ctx'"
  proof (cases bs)
    case Nil
    with assms show ?thesis by (simp add: drawBoundingBoxes_def ctx'_def)
  next
    case (Cons b bs')
    with assms show ?thesis by (simp add: drawBoundingBoxes_def ctx'_def)
  qed
  have surf: "surface ctx' =
      surface ctx @ boxes_primitives pf ls cs 0 bs (strokeStyle ctx) (fillStyle ctx)"
    by (simp add: ctx'_def forEach_box_surface)
  have len: "length (surface ctx') = length (surface ctx) + 3 * length bs"
    by (simp add: surf length_boxes_primitives)
  have prims: "\<forall>i<length bs. case bs ! i of (x1, y1, x2, y2) \<Rightarrow>
            surface ctx' ! (length (surface ctx) + 3 * i) =
              StrokedRect (style_after (label_color (label_at ls i))
                             (stroke_before ls 0 (strokeStyle ctx) i))
                3 x1 y1 (num_sub pf x2 x1) (num_sub pf y2 y1)
          \<and> surface ctx' ! (length (surface ctx) + 3 * i + 1) =
              FilledRect (style_after (label_color (label_at ls i))
                            (fill_before (fillStyle ctx) i))
                x1 (num_sub pf y1 20)
                (num_add pf (measureText pf ''14px Arial'' (labelText pf ls cs i)) 10) 20
          \<and> surface ctx' ! (length (surface ctx) + 3 * i + 2) =
              FilledText ''#000000'' ''14px Arial'' (labelText pf ls cs i)
                (num_add pf x1 5) (num_sub pf y1 5)"
  proof (intro allI impI)
    fix i assume i: "i < length bs"
    obtain x1 y1 x2 y2 where b: "bs ! i = (x1, y1, x2, y2)" by (cases "bs ! i") auto
    have at: "surface ctx' ! (length (surface ctx) + (3 * i + j)) =
                box_primitives pf ls cs i (bs ! i)
                  (stroke_before ls 0 (strokeStyle ctx) i) (fill_before (fillStyle ctx) i) ! j"
      if "j < 3" for j
      using boxes_primitives_nth [OF i that, of pf ls cs 0 "strokeStyle ctx" "fillStyle ctx"]
      by (simp add: surf)
    from at [of 0] at [of 1] at [of 2] b
    show "case bs ! i of (x1, y1, x2, y2) \<Rightarrow>
            surface ctx' ! (length (surface ctx) + 3 * i) =
              StrokedRect (style_after (label_color (label_at ls i))
                             (stroke_before ls 0 (strokeStyle ctx) i))
                3 x1 y1 (num_sub pf x2 x1) (num_sub pf y2 y1)
          \<and> surface ctx' ! (length (surface ctx) + 3 * i + 1) =
              FilledRect (style_after (label_color (label_at ls i))
                            (fill_before (fillStyle ctx) i))
                x1 (num_sub pf y1 20)
                (num_add pf (measureText pf ''14px Arial'' (labelText pf ls cs i)) 10) 20
          \<and> surface ctx' ! (length (surface ctx) + 3 * i + 2) =
              FilledText ''#000000'' ''14px Arial'' (labelText pf ls cs i)
                (num_add pf x1 5) (num_sub pf y1 5)"
      by (simp add: box_primitives_def add.assoc)
  qed
  have lab: "\<forall>i. length ls \<le> i \<longrightarrow>
            label_at ls i = ''Unknown''
          \<and> (\<forall>previous. style_after (label_color (label_at ls i)) previous = ''#00FF00'')
          \<and> labelText pf ls cs i = ''Unknown '' @ percent pf (confidence_at cs i) @ ''%''"
    by (simp add: past_end_defaults labelText_def unknown_is_green)
  have conf: "\<forall>i. length cs \<le> i \<longrightarrow>
            confidence_at cs i = 0
          \<and> labelText pf ls cs i = label_at ls i @ '' '' @ percent pf 0 @ ''%''
          \<and> (percent pf 0 = ''0'' \<longrightarrow> labelText pf ls cs i = label_at ls i @ '' 0%'')"
    by (simp add: past_end_defaults labelText_def)
  from res len prims lab conf show ?thesis by blast
qed

theorem drawBoundingBoxes_mismatched_witness:
  "boxes ragged_set = Some [(10, 10, 50, 50), (100, 120, 180, 200)]
   \<and> labels ragged_set = Some [''Human'']
   \<and> confidences ragged_set = Some []
   \<and> percent exact_platform 0 = ''0''
   \<and> (\<exists>ctx'. drawBoundingBoxes exact_platform ragged_set blank_canvas = Inr ctx'
        \<and> length (surface ctx') = 6
        \<and> surface ctx' ! 2 = FilledText ''#000000'' ''14px Arial'' ''Human 0%'' 15 5
        \<and> surface ctx' ! 3 = StrokedRect ''#00FF00'' 3 100 120 80 80
        \<and> surface ctx' ! 5 = FilledText ''#000000'' ''14px Arial'' ''Unknown 0%'' 105 115)"
proof -
  have b: "boxes ragged_set = Some [(10, 10, 50, 50), (100, 120, 180, 200)]"
    and l: "labels ragged_set = Some [''Human'']"
    and c: "confidences ragged_set = Some []"
    by (simp_all add: ragged_set_def)
  have z: "percent exact_platform 0 = ''0''"
    by (simp add: exact_platform_def toFixed0_zero)
  from drawBoundingBoxes_mismatched_lengths [OF b l c, of exact_platform blank_canvas]
  obtain ctx' where r: "drawBoundingBoxes exact_platform ragged_set blank_canvas = Inr ctx'"
    and n: "length (surface ctx') = length (surface blank_canvas) + 3 * length [(10 :: rat, 10 :: rat, 50 :: rat, 50 :: rat), (100, 120, 180, 200)]"
    and p: "\<forall>i<length [(10 :: rat, 10 :: rat, 50 :: rat, 50 :: rat), (100, 120, 180, 200)].
          case [(10 :: rat, 10 :: rat, 50 :: rat, 50 :: rat), (100, 120, 180, 200)] ! i of (x1, y1, x2, y2) \<Rightarrow>
            surface ctx' ! (length (surface blank_canvas) + 3 * i) =
              StrokedRect (style_after (label_color (label_at [''Human''] i))
                             (stroke_before [''Human''] 0 (strokeStyle blank_canvas) i))
                3 x1 y1 (num_sub exact_platform x2 x1) (num_sub exact_platform y2 y1)
          \<and> surface ctx' ! (length (surface blank_canvas) + 3 * i + 1) =
              FilledRect (style_after (label_color (label_at [''Human''] i))
                            (fill_before (fillStyle blank_canvas) i))
                x1 (num_sub exact_platform y1 20)
                (num_add exact_platform
                   (measureText exact_platform ''14px Arial'' (labelText exact_platform [''Human''] [] i)) 10) 20
          \<and> surface ctx' ! (length (surface blank_canvas) + 3 * i + 2) =
              FilledText ''#000000'' ''14px Arial'' (labelText exact_platform [''Human''] [] i)
                (num_add exact_platform x1 5) (num_sub exact_platform y1 5)"
    and q: "\<forall>i. length ([] :: rat list) \<le> i \<longrightarrow>
            confidence_at [] i = 0
          \<and> labelText exact_platform [''Human''] [] i =
              label_at [''Human''] i @ '' '' @ percent exact_platform 0 @ ''%''
          \<and> (percent exact_platform 0 = ''0'' \<longrightarrow>
               labelText exact_platform [''Human''] [] i = label_at [''Human''] i @ '' 0%'')"
    by blast
  have e: "length (surface blank_canvas) = 0"
    by (simp add: blank_canvas_def reset_context_def)
  from q z have zero_text: "labelText exact_platform [''Human''] [] i = label_at [''Human''] i @ '' 0%''" for i
    by simp
  have t0: "labelText exact_platform [''Human''] [] 0 = ''Human 0%''"
    and t1: "labelText exact_platform [''Human''] [] (Suc 0) = ''Unknown 0%''"
    by (simp_all add: zero_text label_at_def)
  have ops: "num_sub exact_platform = (\<lambda>a b. a - b)" "num_add exact_platform = (\<lambda>a b. a + b)"
    "measureText exact_platform = (\<lambda>fnt txt. 7 * of_nat (length txt))"
    by (simp_all add: exact_platform_def)
  from p [rule_format, of 0] p [rule_format, of 1] n e
  have "length (surface ctx') = 6
        \<and> surface ctx' ! 2 = FilledText ''#000000'' ''14px Arial'' ''Human 0%'' 15 5
        \<and> surface ctx' ! 3 = StrokedRect ''#00FF00'' 3 100 120 80 80
        \<and> surface ctx' ! 5 = FilledText ''#000000'' ''14px Arial'' ''Unknown 0%'' 105 115"
    by (simp add: t0 t1 ops label_at_def unknown_is_green numeral_2_eq_2)
  with r b l c z show ?thesis by blast
qed

text \<open>
  C6. When the payload has no detection set, or the set has no boxes array or an empty
  one, the \<open>onload\<close> callback leaves a canvas of the image's size on which the image is
  the only thing painted; so does the whole effect when the frame decodes to that image.
\<close>

theorem no_boxes_output_is_input:
  assumes "DetectionPayload.detections det = None
         \<or> (\<exists>ds. DetectionPayload.detections det = Some ds \<and> (boxes ds = None \<or> boxes ds = Some []))"
  shows "(\<exists>cv'. img_onload mt det img cv = Inr cv' \<and> shows_only img cv')
       \<and> (frame det \<noteq> [] \<longrightarrow> decode (image_src (frame det)) = Some img \<longrightarrow>
            (\<exists>cv'. VideoTile_effect decode mt (Some det) (Some cv) = Inr (Some cv')
                  \<and> shows_only img cv'))"
proof -
  define cv2 where "cv2 = drawImage img 0 0 (set_height (img_height img) (set_width (img_width img) cv))"
  have shown: "shows_only img cv2"
    by (simp add: cv2_def shows_only_def drawImage_def set_height_def set_width_def reset_context_def)
  from assms have load: "img_onload mt det img cv = Inr cv2"
    by (auto simp add: img_onload_def cv2_def Let_def drawBoundingBoxes_def)
  then have "frame det \<noteq> [] \<Longrightarrow> decode (image_src (frame det)) = Some img \<Longrightarrow>
      VideoTile_effect decode mt (Some det) (Some cv) = Inr (Some cv2)"
    by (simp add: VideoTile_effect_def)
  with load shown show ?thesis by blast
qed

theorem no_boxes_output_is_input_witness:
  "DetectionPayload.detections (scenario_payload\<lparr>DetectionPayload.detections := None\<rparr>) = None
   \<and> frame (scenario_payload\<lparr>DetectionPayload.detections := None\<rparr>) \<noteq> []
   \<and> (\<exists>cv'. VideoTile_effect (\<lambda>src. Some sample_image) exact_platform
          (Some (scenario_payload\<lparr>DetectionPayload.detections := None\<rparr>)) (Some blank_canvas)
          = Inr (Some cv')
        \<and> width cv' = 640 \<and> height cv' = 480 \<and> surface cv' = [DrawnImage sample_image 0 0])
   \<and> (\<exists>cv'. img_onload exact_platform
          (scenario_payload\<lparr>DetectionPayload.detections := Some (ragged_set\<lparr>boxes := Some []\<rparr>)\<rparr>)
          sample_image blank_canvas = Inr cv'
        \<and> surface cv' = [DrawnImage sample_image 0 0])"
proof -
  have absent: "DetectionPayload.detections (scenario_payload\<lparr>DetectionPayload.detections := None\<rparr>) = None"
    by simp
  have fr: "frame (scenario_payload\<lparr>DetectionPayload.detections := None\<rparr>) \<noteq> []"
    by (simp add: scenario_payload_def)
  have empty: "\<exists>ds. DetectionPayload.detections
        (scenario_payload\<lparr>DetectionPayload.detections := Some (ragged_set\<lparr>boxes := Some []\<rparr>)\<rparr>) = Some ds
      \<and> (boxes ds = None \<or> boxes ds = Some [])"
    by simp
  from no_boxes_output_is_input [OF disjI1 [OF absent], of exact_platform sample_image blank_canvas
         "\<lambda>src. Some sample_image"] fr
  have one: "\<exists>cv'. VideoTile_effect (\<lambda>src. Some sample_image) exact_platform
          (Some (scenario_payload\<lparr>DetectionPayload.detections := None\<rparr>)) (Some blank_canvas)
          = Inr (Some cv')
        \<and> width cv' = 640 \<and> height cv' = 480 \<and> surface cv' = [DrawnImage sample_image 0 0]"
    by (auto simp add: shows_only_def sample_image_def)
  from no_boxes_output_is_input [OF disjI2 [OF empty], of exact_platform sample_image blank_canvas
         "\<lambda>src. Some sample_image"]
  have two: "\<exists>cv'. img_onload exact_platform
          (scenario_payload\<lparr>DetectionPayload.detections := Some (ragged_set\<lparr>boxes := Some []\<rparr>)\<rparr>)
          sample_image blank_canvas = Inr cv'
        \<and> surface cv' = [DrawnImage sample_image 0 0]"
    by (auto simp add: shows_only_def)
  from absent fr one two show ?thesis by blast
qed

text \<open>
  C8. When the browser cannot decode a frame, the effect returns normally with the
  canvas that \<open>onerror\<close> painted: a fill in \<open>#333\<close> from the origin that is at least as
  large as the canvas, and on it the text \<open>Frame Load Error\<close> in \<open>#fff\<close>. The frame is
  not painted and the size of the canvas is unchanged. (The effect skips a payload whose
  frame is missing or empty before any decoding, so the frame here is not empty.)
\<close>

theorem undecodable_frame_placeholder:
  assumes "frame det \<noteq> []" and "decode (image_src (frame det)) = None"
  shows "VideoTile_effect decode mt (Some det) (Some cv) = Inr (Some (img_onerror cv))
       \<and> surface (img_onerror cv) = surface cv @
           [FilledRect ''#333'' 0 0 (if width cv = 0 then 300 else of_nat (width cv))
                                    (if height cv = 0 then 200 else of_nat (height cv)),
            FilledText ''#fff'' (font cv) ''Frame Load Error'' 10 20]
       \<and> width (img_onerror cv) = width cv \<and> height (img_onerror cv) = height cv
       \<and> (of_nat (width cv) :: rat) \<le> (if width cv = 0 then 300 else of_nat (width cv))
       \<and> (of_nat (height cv) :: rat) \<le> (if height cv = 0 then 200 else of_nat (height cv))"
  using assms
  by (simp add: VideoTile_effect_def img_onerror_def fillRect_def fillText_def Let_def)

theorem undecodable_frame_placeholder_witness:
  "frame (scenario_payload\<lparr>frame := ''!!not-base64!!''\<rparr>) \<noteq> []
   \<and> VideoTile_effect (\<lambda>src. None) exact_platform
        (Some (scenario_payload\<lparr>frame := ''!!not-base64!!''\<rparr>)) (Some blank_canvas) =
      Inr (Some (img_onerror blank_canvas))
   \<and> surface (img_onerror blank_canvas) =
        [FilledRect ''#333'' 0 0 300 150,
         FilledText ''#fff'' ''10px sans-serif'' ''Frame Load Error'' 10 20]"
proof -
  have fr: "frame (scenario_payload\<lparr>frame := ''!!not-base64!!''\<rparr>) \<noteq> []"
    by simp
  have dec: "(\<lambda>src. None :: image option)
      (image_src (frame (scenario_payload\<lparr>frame := ''!!not-base64!!''\<rparr>))) = None"
    by simp
  from undecodable_frame_placeholder [of "scenario_payload\<lparr>frame := ''!!not-base64!!''\<rparr>"
         "\<lambda>src. None" exact_platform blank_canvas, OF fr dec] fr
  show ?thesis
    by (simp add: blank_canvas_def reset_context_def)
qed

section \<open>Properties of the camera node\<close>

lemma stopStreaming_resources:
  "intervalRef (stopStreaming c) = None
   \<and> streamRef (stopStreaming c) = None
   \<and> active_intervals (stopStreaming c) = active_intervals c - set_option (intervalRef c)
   \<and> live_tracks (stopStreaming c) =
       live_tracks c - (case streamRef c of None \<Rightarrow> {} | Some s \<Rightarrow> set (getTracks s))"
  by (simp add: stopStreaming_def clearInterval_def stop_tracks_def setStatus_def Let_def
      split: option.splits)

lemma cam_on_disconnect_resources:
  "intervalRef (cam_on_disconnect r c) = None
   \<and> streamRef (cam_on_disconnect r c) = None
   \<and> active_intervals (cam_on_disconnect r c) = active_intervals c - set_option (intervalRef c)
   \<and> live_tracks (cam_on_disconnect r c) =
       live_tracks c - (case streamRef c of None \<Rightarrow> {} | Some s \<Rightarrow> set (getTracks s))"
  unfolding cam_on_disconnect_def
  by (simp add: stopStreaming_resources setStatus_def)

lemma on_stop_trigger_resources:
  "intervalRef (on_stop_trigger t c) = None
   \<and> streamRef (on_stop_trigger t c) = None
   \<and> active_intervals (on_stop_trigger t c) = active_intervals c - set_option (intervalRef c)
   \<and> live_tracks (on_stop_trigger t c) =
       live_tracks c - (case streamRef c of None \<Rightarrow> {} | Some s \<Rightarrow> set (getTracks s))"
proof (cases t)
  case DeployStopCommand
  then show ?thesis
    by (simp add: on_deploy_stop_def stopStreaming_resources setStatus_def)
next
  case (TransportDisconnect reason)
  then show ?thesis
    by (simp add: cam_on_disconnect_resources split: option.splits)
next
  case ComponentTeardown
  then show ?thesis
    by (simp add: effect_cleanup_def Let_def cam_on_disconnect_resources stopStreaming_resources)
qed

lemma timers_tracked_step:
  assumes "timers_tracked c"
  shows "timers_tracked (camera_step c ev)"
proof (cases ev)
  case TransportConnect
  with assms show ?thesis
    by (simp add: timers_tracked_def cam_on_connect_def setStatus_def split: option.splits)
next
  case (StopTrigger t)
  with assms show ?thesis
    using on_stop_trigger_resources [of t c] by (auto simp add: timers_tracked_def)
next
  case DeployAssigned
  with assms show ?thesis
    by (simp add: timers_tracked_def on_deploy_assigned_def startStreaming_def
        startStreaming_catch_def setStatus_def)
next
  case (DetectionArrived d)
  with assms show ?thesis
    by (simp add: timers_tracked_def cam_on_detection_result_def)
next
  case (GetUserMediaResolved s)
  from assms have "timers_tracked (getUserMedia_resolved s c)"
    by (auto simp add: timers_tracked_def getUserMedia_resolved_def setInterval_def
        clearInterval_def Let_def split: option.splits)
  with assms GetUserMediaResolved show ?thesis by simp
next
  case (GetUserMediaRejected message)
  with assms show ?thesis
    by (simp add: timers_tracked_def getUserMedia_rejected_def startStreaming_catch_def
        setStatus_def)
next
  case (VideoLoadedMetadata play_ok)
  with assms show ?thesis
    by (simp add: timers_tracked_def video_loadedmetadata_def setStatus_def
        split: option.splits)
next
  case (VideoElement mounted)
  with assms show ?thesis
    by (simp add: timers_tracked_def)
qed

lemma timers_tracked_run: "timers_tracked c \<Longrightarrow> timers_tracked (camera_run evs c)"
  unfolding camera_run_def
  by (induction evs arbitrary: c) (simp_all add: timers_tracked_step)

lemma timers_tracked_mounted: "timers_tracked (camera_mounted token supported)"
  by (simp add: camera_mounted_def timers_tracked_def Let_def)

text \<open>
  A request that is still pending when a stop trigger runs is settled afterwards and
  then acquires the stream and schedules the timer, on a camera that is no longer
  deployed.
\<close>

lemma acquisition_settled_after_stop:
  "active_intervals (camera_run
      [TransportConnect, DeployAssigned, StopTrigger DeployStopCommand,
       GetUserMediaResolved (MediaStream [7])] (camera_mounted ''jwt'' True)) = {IntervalHandle 1}
   \<and> live_tracks (camera_run
      [TransportConnect, DeployAssigned, StopTrigger DeployStopCommand,
       GetUserMediaResolved (MediaStream [7])] (camera_mounted ''jwt'' True)) = {7}"
  by code_simp

text \<open>
  What a stop trigger does release. Each of the three, the \<open>deploy:stop\<close> command, the
  transport's disconnect and the teardown of the component, run in any state, returns
  with \<open>intervalRef\<close> and \<open>streamRef\<close> null, the timer whose handle \<open>intervalRef\<close> held no
  longer scheduled, and no track of the stream that \<open>streamRef\<close> held still open; it
  schedules no timer and opens no track. In every state the page can reach from its
  start no timer at all is scheduled after the trigger.
\<close>

lemma stop_trigger_cancels_timer_and_releases_held_stream:
  "intervalRef (on_stop_trigger t c) = None
   \<and> streamRef (on_stop_trigger t c) = None
   \<and> (\<forall>h. intervalRef c = Some h \<longrightarrow> h \<notin> active_intervals (on_stop_trigger t c))
   \<and> (\<forall>s. streamRef c = Some s \<longrightarrow> set (getTracks s) \<inter> live_tracks (on_stop_trigger t c) = {})
   \<and> active_intervals (on_stop_trigger t c) \<subseteq> active_intervals c
   \<and> live_tracks (on_stop_trigger t c) \<subseteq> live_tracks c
   \<and> active_intervals
        (on_stop_trigger t (camera_run evs (camera_mounted token supported))) = {}"
proof -
  note r = on_stop_trigger_resources [of t c]
  have "timers_tracked (camera_run evs (camera_mounted token supported))"
    by (rule timers_tracked_run [OF timers_tracked_mounted])
  then have "active_intervals
        (on_stop_trigger t (camera_run evs (camera_mounted token supported))) = {}"
    using on_stop_trigger_resources [of t "camera_run evs (camera_mounted token supported)"]
    by (auto simp add: timers_tracked_def)
  with r show ?thesis by auto
qed


lemma streaming_camera_holds:
  "intervalRef streaming_camera = Some (IntervalHandle 1)
   \<and> streamRef streaming_camera = Some (MediaStream [7, 8])
   \<and> active_intervals streaming_camera = {IntervalHandle 1}
   \<and> live_tracks streaming_camera = {7, 8}
   \<and> status streaming_camera = ''STREAMING''"
  by code_simp

lemma stop_trigger_releases_streaming_camera:
  "intervalRef streaming_camera = Some (IntervalHandle 1)
   \<and> streamRef streaming_camera = Some (MediaStream [7, 8])
   \<and> live_tracks streaming_camera = {7, 8}
   \<and> IntervalHandle 1 \<notin> active_intervals (on_stop_trigger DeployStopCommand streaming_camera)
   \<and> live_tracks (on_stop_trigger DeployStopCommand streaming_camera) = {}
   \<and> IntervalHandle 1 \<notin> active_intervals (on_stop_trigger (TransportDisconnect ''transport close'') streaming_camera)
   \<and> live_tracks (on_stop_trigger (TransportDisconnect ''transport close'') streaming_camera) = {}
   \<and> IntervalHandle 1 \<notin> active_intervals (on_stop_trigger ComponentTeardown streaming_camera)
   \<and> live_tracks (on_stop_trigger ComponentTeardown streaming_camera) = {}"
proof -
  note h = streaming_camera_holds
  have released: "IntervalHandle 1 \<notin> active_intervals (on_stop_trigger t streaming_camera)
      \<and> live_tracks (on_stop_trigger t streaming_camera) = {}" for t
  proof -
    note th = stop_trigger_cancels_timer_and_releases_held_stream
                [of t streaming_camera "[]" "''jwt''" True]
    from th h have timer: "IntervalHandle 1 \<notin> active_intervals (on_stop_trigger t streaming_camera)"
      by blast
    from th h have "set (getTracks (MediaStream [7, 8])) \<inter>
        live_tracks (on_stop_trigger t streaming_camera) = {}"
      by blast
    moreover from th h have "live_tracks (on_stop_trigger t streaming_camera) \<subseteq> {7, 8}"
      by simp
    ultimately have "live_tracks (on_stop_trigger t streaming_camera) = {}"
      by auto
    with timer show ?thesis by simp
  qed
  from released [of DeployStopCommand] released [of "TransportDisconnect ''transport close''"]
       released [of ComponentTeardown] h
  show ?thesis by simp
qed

text \<open>
  C3. The claim is that after every stop trigger the timer is cancelled and every track
  of the acquired capture stream is stopped. The triggers release the stream that
  \<open>streamRef\<close> holds, and \<open>startStreaming\<close> overwrites \<open>streamRef\<close> with a newly acquired
  stream without stopping the tracks of the stream it held (the timer it replaces it
  does clear). On the camera that was deployed twice, which holds the stream of track 8
  while tracks 7 and 8 are open, each of the three triggers returns with both
  references null and no timer scheduled, and with track 7 still open. The same holds
  when a stop came between the two deploys before the first request was answered.
\<close>

theorem stop_trigger_leaves_replaced_stream_open:
  "streamRef redeployed_camera = Some (MediaStream [8])
   \<and> live_tracks redeployed_camera = {7, 8}
   \<and> live_tracks (on_stop_trigger DeployStopCommand redeployed_camera) = {7}
   \<and> live_tracks (on_stop_trigger (TransportDisconnect ''transport close'') redeployed_camera) = {7}
   \<and> live_tracks (on_stop_trigger ComponentTeardown redeployed_camera) = {7}
   \<and> streamRef (on_stop_trigger DeployStopCommand redeployed_camera) = None
   \<and> intervalRef (on_stop_trigger DeployStopCommand redeployed_camera) = None
   \<and> active_intervals (on_stop_trigger DeployStopCommand redeployed_camera) = {}
   \<and> live_tracks (on_stop_trigger DeployStopCommand
        (camera_run [TransportConnect, DeployAssigned, StopTrigger DeployStopCommand,
                     DeployAssigned, GetUserMediaResolved (MediaStream [7]),
                     GetUserMediaResolved (MediaStream [8])]
           (camera_mounted ''jwt'' True))) = {7}"
  by code_simp

text \<open>
  C7. When the camera cannot be acquired after \<open>deploy:assigned\<close>, the status becomes
  \<open>ERROR\<close> and no timer is scheduled: neither when \<open>getUserMedia\<close> does not exist (the
  listener itself ends in \<open>ERROR\<close>), nor when the browser rejects the request (device
  unavailable, permission denied), whatever the state in which the rejection arrives.
  The scheduled timers, \<open>intervalRef\<close> and the handle counter are as before the command.
\<close>

theorem acquisition_failure_error_and_no_timer:
  "(\<not> getUserMedia_supported c \<longrightarrow>
       status (on_deploy_assigned c) = ''ERROR''
     \<and> active_intervals (on_deploy_assigned c) = active_intervals c
     \<and> intervalRef (on_deploy_assigned c) = intervalRef c
     \<and> next_interval (on_deploy_assigned c) = next_interval c
     \<and> streamRef (on_deploy_assigned c) = streamRef c
     \<and> pending_getUserMedia (on_deploy_assigned c) = pending_getUserMedia c)
   \<and> status (getUserMedia_rejected message c) = ''ERROR''
   \<and> active_intervals (getUserMedia_rejected message c) = active_intervals c
   \<and> intervalRef (getUserMedia_rejected message c) = intervalRef c
   \<and> next_interval (getUserMedia_rejected message c) = next_interval c
   \<and> streamRef (getUserMedia_rejected message c) = streamRef c
   \<and> (getUserMedia_supported c \<longrightarrow>
       status (getUserMedia_rejected message (on_deploy_assigned c)) = ''ERROR''
     \<and> active_intervals (getUserMedia_rejected message (on_deploy_assigned c)) = active_intervals c
     \<and> intervalRef (getUserMedia_rejected message (on_deploy_assigned c)) = intervalRef c
     \<and> next_interval (getUserMedia_rejected message (on_deploy_assigned c)) = next_interval c
     \<and> pending_getUserMedia (getUserMedia_rejected message (on_deploy_assigned c)) =
         pending_getUserMedia c)"
  by (simp add: on_deploy_assigned_def startStreaming_def startStreaming_catch_def
      getUserMedia_rejected_def setStatus_def)

theorem acquisition_failure_witness:
  "\<not> getUserMedia_supported (camera_mounted ''jwt'' False)
   \<and> status (on_deploy_assigned (camera_mounted ''jwt'' False)) = ''ERROR''
   \<and> active_intervals (on_deploy_assigned (camera_mounted ''jwt'' False)) = {}
   \<and> getUserMedia_supported (camera_mounted ''jwt'' True)
   \<and> status (getUserMedia_rejected ''Permission denied''
        (on_deploy_assigned (camera_mounted ''jwt'' True))) = ''ERROR''
   \<and> active_intervals (getUserMedia_rejected ''Permission denied''
        (on_deploy_assigned (camera_mounted ''jwt'' True))) = {}
   \<and> intervalRef (getUserMedia_rejected ''Permission denied''
        (on_deploy_assigned (camera_mounted ''jwt'' True))) = None"
proof -
  have no: "\<not> getUserMedia_supported (camera_mounted ''jwt'' False)"
    and yes: "getUserMedia_supported (camera_mounted ''jwt'' True)"
    by (simp_all add: camera_mounted_def Let_def)
  have init: "active_intervals (camera_mounted ''jwt'' False) = {}"
    "active_intervals (camera_mounted ''jwt'' True) = {}"
    "intervalRef (camera_mounted ''jwt'' True) = None"
    by (simp_all add: camera_mounted_def Let_def)
  from acquisition_failure_error_and_no_timer [of "camera_mounted ''jwt'' False" "''Permission denied''"]
       acquisition_failure_error_and_no_timer [of "camera_mounted ''jwt'' True" "''Permission denied''"]
       no yes init
  show ?thesis by simp
qed

end
